theory Spec2Isabelle
  imports Main "HOL-Library.Log_Nat" "HOL-Library.Sublist"
begin

section \<open>Markup returned by the components\<close>

text \<open>
  A component is a function from its props to a JSX element tree. A lower-case JSX name
  (\<^verbatim>\<open><div>\<close>) is a host tag, a capitalised one (\<^verbatim>\<open><Sidebar>\<close>) is a reference to a
  component; the function that returns the tree does not call the components it
  mentions, so they stay in the tree as elements. Props of an element are an association
  list in the order the JSX writes them; \<^verbatim>\<open>key\<close> is kept among them.
\<close>

datatype attr =
    AStr string
  | ABool bool
  | AStyle "(string \<times> string) list"
  | AHandler string

datatype elemType = Tag string | Component string

datatype node =
    Text string
  | NumChild nat
  | Element elemType "(string \<times> attr) list" "node list"

text \<open>Reading a tree: the children of a node, and the node reached by a path of child indices.\<close>

fun kids :: "node \<Rightarrow> node list" where
  "kids (Element t a cs) = cs"
| "kids _ = []"

fun props :: "node \<Rightarrow> (string \<times> attr) list" where
  "props (Element t a cs) = a"
| "props _ = []"

fun nthOpt :: "'a list \<Rightarrow> nat \<Rightarrow> 'a option" where
  "nthOpt [] i = None"
| "nthOpt (x # xs) 0 = Some x"
| "nthOpt (x # xs) (Suc i) = nthOpt xs i"

fun nodeAt :: "node \<Rightarrow> nat list \<Rightarrow> node option" where
  "nodeAt n [] = Some n"
| "nodeAt n (i # path) = (case nthOpt (kids n) i of None \<Rightarrow> None | Some c \<Rightarrow> nodeAt c path)"

text \<open>
  Object spread \<^verbatim>\<open>{a: 1, ...props}\<close>: a key of \<^verbatim>\<open>props\<close> that is already present
  replaces the value in place, a new key is appended.
\<close>

fun assign :: "(string \<times> attr) list \<Rightarrow> string \<Rightarrow> attr \<Rightarrow> (string \<times> attr) list" where
  "assign [] k v = [(k, v)]"
| "assign ((k', v') # ps) k v = (if k' = k then (k, v) # ps else (k', v') # assign ps k v)"

fun spread :: "(string \<times> attr) list \<Rightarrow> (string \<times> attr) list \<Rightarrow> (string \<times> attr) list" where
  "spread base [] = base"
| "spread base ((k, v) # ps) = spread (assign base k v) ps"

section \<open>Imported functions\<close>

text \<open>
  \<^verbatim>\<open>ClassValue\<close> as the \<^verbatim>\<open>clsx\<close> package declares it: a string, a number, a boolean,
  \<^verbatim>\<open>null\<close>, \<^verbatim>\<open>undefined\<close>, an array of class values, or a dictionary from class names to
  values of which only the truthiness is read.
\<close>

datatype ClassValue =
    CStr string
  | CNum int
  | CBool bool
  | CNull
  | CUndefined
  | CArray "ClassValue list"
  | CDict "(string \<times> bool) list"

datatype SidebarState = Expanded | Collapsed

text \<open>
  What \<^verbatim>\<open>useSidebar()\<close> returns. The components read only \<^verbatim>\<open>state\<close>; the other fields
  of the library's context object are the extension of the record.
\<close>

record SidebarContext =
  state :: SidebarState

text \<open>
  The functions the components import and whose bodies are not part of the sources:
  \<^verbatim>\<open>clsx\<close> (package clsx), \<^verbatim>\<open>twMerge\<close> (package tailwind-merge), \<^verbatim>\<open>useSidebar\<close>
  (package proqio-ui, reads the enclosing \<^verbatim>\<open>SidebarProvider\<close>) and \<^verbatim>\<open>getInitials\<close>
  (module \<^verbatim>\<open>@/utils/get-initials\<close>). Each is a parameter of the model. A call either
  returns a value (\<open>Inr\<close>) or throws (\<open>Inl\<close>); the type \<open>'e\<close> of thrown values is left
  open, so a component can only pass on what a callee threw. Whatever else surrounds a
  render is the extension of the record.
\<close>

record ('e, 'c) externals =
  clsx :: "ClassValue list \<Rightarrow> 'e + string"
  twMerge :: "string \<Rightarrow> 'e + string"
  getInitials :: "string \<Rightarrow> 'e + string"
  useSidebar :: "'e + 'c SidebarContext_scheme"

text \<open>Sequencing of two calls: an exception of the first skips the second.\<close>

definition bindE :: "'e + 'a \<Rightarrow> ('a \<Rightarrow> 'e + 'b) \<Rightarrow> 'e + 'b" where
  "bindE m f = (case m of Inl e \<Rightarrow> Inl e | Inr x \<Rightarrow> f x)"

section \<open>The class-name utility\<close>

text \<open>\<^verbatim>\<open>const cn = (...values: ClassValue[]) => twMerge(clsx(...values));\<close>\<close>

definition cn :: "('e, 'c, 'z) externals_scheme \<Rightarrow> ClassValue list \<Rightarrow> 'e + string" where
  "cn env values = bindE (clsx env values) (twMerge env)"

text \<open>A \<^verbatim>\<open>className?: string\<close> prop handed to \<^verbatim>\<open>cn\<close>: absent means \<^verbatim>\<open>undefined\<close>.\<close>

definition classArg :: "string option \<Rightarrow> ClassValue" where
  "classArg c = (case c of None \<Rightarrow> CUndefined | Some s \<Rightarrow> CStr s)"

section \<open>Header components\<close>

text \<open>
  \<^verbatim>\<open>React.ComponentPropsWithRef<'header'>\<close> (and \<^verbatim>\<open>'div'\<close>, \<^verbatim>\<open>'span'\<close>) as the components
  destructure it: \<^verbatim>\<open>{ children, className, ...props }\<close>. \<open>None\<close> is \<^verbatim>\<open>undefined\<close>;
  \<open>rest\<close> is \<^verbatim>\<open>props\<close>, the remaining attributes, which hold none of the names taken
  out before them.
\<close>

record elemProps =
  children :: "node list option"
  className :: "string option"
  rest :: "(string \<times> attr) list"

text \<open>\<^verbatim>\<open>{children}\<close> in a JSX body: \<^verbatim>\<open>undefined\<close> renders nothing.\<close>

definition childNodes :: "node list option \<Rightarrow> node list" where
  "childNodes c = (case c of None \<Rightarrow> [] | Some ns \<Rightarrow> ns)"

definition Header :: "('e, 'c, 'z) externals_scheme \<Rightarrow> elemProps \<Rightarrow> 'e + node" where
  "Header env p =
     bindE (cn env [CStr ''flex h-14 items-center justify-between border-b border-slate-200 bg-white px-6 dark:border-slate-800 dark:bg-slate-950'',
                    classArg (className p)])
       (\<lambda>c. Inr (Element (Tag ''header'')
                    (spread [(''className'', AStr c)] (rest p))
                    (childNodes (children p))))"

definition HeaderSection :: "('e, 'c, 'z) externals_scheme \<Rightarrow> elemProps \<Rightarrow> 'e + node" where
  "HeaderSection env p =
     bindE (cn env [CStr ''flex items-center gap-3'', classArg (className p)])
       (\<lambda>c. Inr (Element (Tag ''div'')
                    (spread [(''className'', AStr c)] (rest p))
                    (childNodes (children p))))"

text \<open>\<^verbatim>\<open>children = 'Infinitus'\<close>: the default applies when the prop is \<^verbatim>\<open>undefined\<close>.\<close>

definition HeaderBrand :: "('e, 'c, 'z) externals_scheme \<Rightarrow> elemProps \<Rightarrow> 'e + node" where
  "HeaderBrand env p =
     bindE (cn env [CStr ''text-base font-semibold text-slate-900 dark:text-white'',
                    classArg (className p)])
       (\<lambda>c. Inr (Element (Tag ''span'')
                    (spread [(''className'', AStr c)] (rest p))
                    (case children p of None \<Rightarrow> [Text ''Infinitus''] | Some ns \<Rightarrow> ns)))"

text \<open>
  \<^verbatim>\<open>HeaderDivider\<close> destructures only \<^verbatim>\<open>className\<close>; \<^verbatim>\<open>children\<close> stays in the rest
  props it spreads over the \<^verbatim>\<open>div\<close>, after \<^verbatim>\<open>aria-hidden\<close>.
\<close>

definition HeaderDivider :: "('e, 'c, 'z) externals_scheme \<Rightarrow> elemProps \<Rightarrow> 'e + node" where
  "HeaderDivider env p =
     bindE (cn env [CStr ''h-5 w-px bg-slate-200 dark:bg-slate-700'', classArg (className p)])
       (\<lambda>c. Inr (Element (Tag ''div'')
                    (spread [(''className'', AStr c), (''aria-hidden'', AStr ''true'')] (rest p))
                    (childNodes (children p))))"

record HeaderCompanyLogoProps =
  logoSrc :: "string option"
  logoAlt :: "string option"
  logoClassName :: "string option"
  logoRest :: "(string \<times> attr) list"

text \<open>\<^verbatim>\<open>if (src)\<close>: a string is truthy when it is not empty, \<^verbatim>\<open>undefined\<close> is falsy.\<close>

definition truthyStr :: "string option \<Rightarrow> bool" where
  "truthyStr s = (case s of None \<Rightarrow> False | Some t \<Rightarrow> t \<noteq> [])"

definition HeaderCompanyLogo :: "('e, 'c, 'z) externals_scheme \<Rightarrow> HeaderCompanyLogoProps \<Rightarrow> 'e + node" where
  "HeaderCompanyLogo env p =
     (let alt = (case logoAlt p of None \<Rightarrow> ''Company logo'' | Some a \<Rightarrow> a) in
      if truthyStr (logoSrc p) then
        bindE (cn env [CStr ''h-7 w-auto rounded object-contain'', classArg (logoClassName p)])
          (\<lambda>c. Inr (Element (Tag ''img'')
                       (spread [(''src'', AStr (the (logoSrc p))), (''alt'', AStr alt),
                                (''className'', AStr c)] (logoRest p))
                       []))
      else
        bindE (cn env [CStr ''flex h-7 w-7 items-center justify-center rounded bg-slate-100 dark:bg-slate-800'',
                       classArg (logoClassName p)])
          (\<lambda>c. Inr (Element (Tag ''div'') [(''className'', AStr c)]
                       [Element (Tag ''svg'')
                          [(''xmlns'', AStr ''http://www.w3.org/2000/svg''),
                           (''viewBox'', AStr ''0 0 24 24''),
                           (''fill'', AStr ''none''),
                           (''stroke'', AStr ''currentColor''),
                           (''strokeWidth'', AStr ''1.5''),
                           (''strokeLinecap'', AStr ''round''),
                           (''strokeLinejoin'', AStr ''round''),
                           (''className'', AStr ''h-4 w-4 text-slate-500 dark:text-slate-400''),
                           (''aria-label'', AStr alt)]
                          [Element (Tag ''path'')
                             [(''d'', AStr ''M3 21h18M3 7l9-4 9 4M4 7v14M20 7v14M9 21V9h6v12'')] []]])))"

record HeaderUserAvatarProps =
  avatarSrc :: "string option"
  avatarName :: "string option"
  avatarClassName :: "string option"

text \<open>
  \<^verbatim>\<open>getInitials(name)\<close> is called first, whatever \<^verbatim>\<open>src\<close> is; \<^verbatim>\<open>cn\<close> is called while
  the button's props are built.
\<close>

definition HeaderUserAvatar :: "('e, 'c, 'z) externals_scheme \<Rightarrow> HeaderUserAvatarProps \<Rightarrow> 'e + node" where
  "HeaderUserAvatar env p =
     (let name = (case avatarName p of None \<Rightarrow> ''User'' | Some n \<Rightarrow> n) in
      bindE (getInitials env name) (\<lambda>initials.
      bindE (cn env [CStr ''rounded-full outline-none ring-offset-2 focus-visible:ring-2 focus-visible:ring-slate-400'',
                     classArg (avatarClassName p)]) (\<lambda>c.
      Inr (Element (Component ''DropdownMenu'') []
             [Element (Component ''DropdownMenuTrigger'') [(''asChild'', ABool True)]
                [Element (Tag ''button'')
                   [(''type'', AStr ''button''),
                    (''className'', AStr c),
                    (''aria-label'', AStr (''User menu for '' @ name))]
                   [if truthyStr (avatarSrc p) then
                      Element (Tag ''img'')
                        [(''src'', AStr (the (avatarSrc p))), (''alt'', AStr name),
                         (''className'', AStr ''h-8 w-8 rounded-full object-cover'')] []
                    else
                      Element (Tag ''div'')
                        [(''className'', AStr ''flex h-8 w-8 items-center justify-center rounded-full bg-indigo-600 text-white'')]
                        [Element (Tag ''span'') [(''className'', AStr ''text-xs font-semibold'')]
                           [Text initials]]]],
              Element (Component ''DropdownMenuContent'') [(''align'', AStr ''end'')]
                [Element (Component ''DropdownMenuItem'') [] [Text ''Profile''],
                 Element (Component ''DropdownMenuItem'') [] [Text ''Settings''],
                 Element (Component ''DropdownMenuItem'') [] [Text ''Sign out'']]]))))"

section \<open>Sidebar\<close>

record NavItem =
  label :: string
  to :: string
  Icon :: string

text \<open>The sidebar of the application (icons of \<^verbatim>\<open>@heroicons/react/24/outline\<close>).\<close>

definition navItems :: "NavItem list" where
  "navItems = [\<lparr>label = ''Home'', to = ''/'', Icon = ''HomeIcon''\<rparr>]"

text \<open>The arrow function given to \<^verbatim>\<open>navItems.map\<close>.\<close>

definition navEntry :: "NavItem \<Rightarrow> node" where
  "navEntry item =
     Element (Component ''SidebarMenuItem'') [(''key'', AStr (to item))]
       [Element (Component ''SidebarMenuButton'')
          [(''asChild'', ABool True), (''tooltip'', AStr (label item)),
           (''className'', AStr ''group-data-[collapsible=icon]:mx-auto'')]
          [Element (Component ''Link'') [(''to'', AStr (to item))]
             [Element (Component (Icon item)) [(''className'', AStr ''size-4'')] [],
              Element (Tag ''span'') [] [Text (label item)]]]]"

definition AppSidebar :: "('e, 'c, 'z) externals_scheme \<Rightarrow> 'e + node" where
  "AppSidebar env =
     bindE (useSidebar env) (\<lambda>ctx.
     let isExpanded = (state ctx = Expanded) in
     bindE (cn env [CStr ''flex'', CStr (if isExpanded then ''justify-end'' else ''justify-center'')]) (\<lambda>c.
     Inr (Element (Component ''Sidebar'')
            [(''collapsible'', AStr ''icon''),
             (''className'', AStr ''absolute h-(--content-height) max-h-(--content-height)'')]
            [Element (Component ''SidebarHeader'') [(''className'', AStr c)]
               [Element (Component ''SidebarTrigger'') []
                  [if isExpanded
                   then Element (Component ''ChevronDoubleLeftIcon'') [(''className'', AStr ''size-4'')] []
                   else Element (Component ''ChevronDoubleRightIcon'') [(''className'', AStr ''size-4'')] []]],
             Element (Component ''SidebarContent'') []
               [Element (Component ''SidebarMenu'') [] (map navEntry navItems)],
             Element (Component ''SidebarRail'') [] []])))"

text \<open>The second sidebar module of the repository (icons of \<^verbatim>\<open>lucide-react\<close>).\<close>

definition navItems_lucide :: "NavItem list" where
  "navItems_lucide = [\<lparr>label = ''Home'', to = ''/'', Icon = ''House''\<rparr>]"

definition navEntry_lucide :: "NavItem \<Rightarrow> node" where
  "navEntry_lucide item =
     Element (Component ''SidebarMenuItem'') [(''key'', AStr (to item))]
       [Element (Component ''SidebarMenuButton'')
          [(''asChild'', ABool True), (''tooltip'', AStr (label item)),
           (''className'', AStr ''group-data-[collapsible=icon]:mx-auto'')]
          [Element (Component ''Link'') [(''to'', AStr (to item))]
             [Element (Component (Icon item)) [(''className'', AStr ''size-4'')] [],
              Element (Tag ''span'') [] [Text (label item)]]]]"

definition AppSidebar_lucide :: "('e, 'c, 'z) externals_scheme \<Rightarrow> 'e + node" where
  "AppSidebar_lucide env =
     bindE (useSidebar env) (\<lambda>ctx.
     let isExpanded = (state ctx = Expanded) in
     bindE (cn env [CStr ''flex'', CStr (if isExpanded then ''justify-end'' else ''justify-center'')]) (\<lambda>c.
     Inr (Element (Component ''Sidebar'')
            [(''collapsible'', AStr ''icon''),
             (''className'', AStr ''absolute h-(--content-height) max-h-(--content-height)'')]
            [Element (Component ''SidebarHeader'') [(''className'', AStr c)]
               [Element (Component ''SidebarTrigger'') []
                  [if isExpanded
                   then Element (Component ''ChevronsLeft'') [(''className'', AStr ''size-4'')] []
                   else Element (Component ''ChevronsRight'') [(''className'', AStr ''size-4'')] []]],
             Element (Component ''SidebarContent'') []
               [Element (Component ''SidebarMenu'') [] (map navEntry_lucide navItems_lucide)],
             Element (Component ''SidebarRail'') [] []])))"

section \<open>Dashboard page\<close>

record Stat =
  stat_label :: string
  stat_value :: string
  stat_description :: string

text \<open>The local constant \<^verbatim>\<open>stats\<close> of \<^verbatim>\<open>DashboardPage\<close>.\<close>

definition stats :: "Stat list" where
  "stats =
     [\<lparr>stat_label = ''Total Scans'', stat_value = ''128'', stat_description = ''All-time assessments''\<rparr>,
      \<lparr>stat_label = ''Critical Findings'', stat_value = ''14'', stat_description = ''Requires immediate action''\<rparr>,
      \<lparr>stat_label = ''Providers Connected'', stat_value = ''5'', stat_description = ''AWS, Azure, GCP, K8s, GitHub''\<rparr>,
      \<lparr>stat_label = ''Last Scan'', stat_value = ''2h ago'', stat_description = ''Most recent assessment''\<rparr>]"

text \<open>The arrow function given to \<^verbatim>\<open>stats.map\<close>.\<close>

definition statCard :: "Stat \<Rightarrow> node" where
  "statCard s =
     Element (Tag ''div'')
       [(''key'', AStr (stat_label s)),
        (''className'', AStr ''bg-card text-card-foreground rounded-xl border p-5 shadow-sm'')]
       [Element (Tag ''p'') [(''className'', AStr ''text-muted-foreground text-sm font-medium'')]
          [Text (stat_label s)],
        Element (Tag ''p'') [(''className'', AStr ''mt-1 text-3xl font-bold'')]
          [Text (stat_value s)],
        Element (Tag ''p'') [(''className'', AStr ''text-muted-foreground mt-1 text-xs'')]
          [Text (stat_description s)]]"

definition DashboardPage :: "unit \<Rightarrow> node" where
  "DashboardPage u =
     Element (Tag ''div'') [(''className'', AStr ''flex flex-col gap-6 p-6'')]
       [Element (Tag ''div'') []
          [Element (Tag ''h1'') [(''className'', AStr ''text-2xl font-bold'')] [Text ''Dashboard''],
           Element (Tag ''p'') [(''className'', AStr ''text-muted-foreground text-sm'')]
             [Text ''Overview of your cloud security posture'']],
        Element (Tag ''div'')
          [(''className'', AStr ''grid grid-cols-1 gap-4 sm:grid-cols-2 lg:grid-cols-4'')]
          (map statCard stats),
        Element (Tag ''div'')
          [(''className'', AStr ''bg-card text-card-foreground rounded-xl border p-5 shadow-sm'')]
          [Element (Tag ''h2'') [(''className'', AStr ''mb-4 text-base font-semibold'')]
             [Text ''Recent Findings''],
           Element (Tag ''p'') [(''className'', AStr ''text-muted-foreground text-sm'')]
             [Text ''No recent findings to display.'']]]"

section \<open>Home page\<close>

definition HomePage :: "unit \<Rightarrow> node" where
  "HomePage u =
     Element (Tag ''main'') [(''className'', AStr ''flex h-full flex-col items-center justify-center gap-4'')]
       [Element (Tag ''h1'') [(''className'', AStr ''text-4xl font-bold'')] [Text ''Infinitus''],
        Element (Tag ''p'') [(''className'', AStr ''text-muted-foreground max-w-md text-center text-lg'')]
          [Text ''Open-source cloud security assessment tool for AWS, Azure, GCP, Kubernetes, GitHub, and more.''],
        Element (Component ''Button'') [(''variant'', AStr ''primary''), (''asChild'', ABool True)]
          [Element (Tag ''a'')
             [(''href'', AStr ''https://proqio.com''), (''target'', AStr ''_blank''),
              (''rel'', AStr ''noopener noreferrer'')]
             [Text ''Visit Proqio'']]]"

section \<open>Layout shell and root route\<close>

definition AppLayout :: "unit \<Rightarrow> node" where
  "AppLayout u =
     Element (Tag ''div'') [(''className'', AStr ''flex h-screen flex-col'')]
       [Element (Component ''Header'') []
          [Element (Component ''HeaderSection'') [] [Element (Component ''HeaderBrand'') [] []],
           Element (Component ''HeaderSection'') [] [Element (Component ''HeaderUserAvatar'') [] []]],
        Element (Component ''SidebarProvider'')
          [(''className'', AStr ''relative min-h-0 flex-1''),
           (''style'', AStyle [(''--content-height'', ''100%'')])]
          [Element (Component ''AppSidebar'') [] [],
           Element (Tag ''main'') [(''className'', AStr ''flex-1 overflow-auto'')]
             [Element (Component ''Outlet'') [] []]]]"

definition RootLayout :: "unit \<Rightarrow> node" where
  "RootLayout u = Element (Component ''Suspense'') [] [Element (Component ''AppLayout'') [] []]"

text \<open>
  The options object given to the root route:
  \<^verbatim>\<open>createRootRouteWithContext<RouterContext>()({ component: RootLayout })\<close>.
\<close>

record RouteOptions =
  component :: "unit \<Rightarrow> node"

definition Route :: RouteOptions where
  "Route = \<lparr>component = RootLayout\<rparr>"

section \<open>The counter of the starter page\<close>

text \<open>
  A JavaScript number is an IEEE-754 binary64 value with a 53-bit significand. On
  non-negative integers \<^verbatim>\<open>a + b\<close> is the exact sum rounded to the nearest representable
  value, a tie going to the even significand (sums that overflow the exponent range are
  far outside what a counter reaches and are not modelled).
\<close>

definition roundToDouble :: "nat \<Rightarrow> nat" where
  "roundToDouble n =
     (if n < 2 ^ 53 then n
      else let e = floorlog 2 n - 53;
               q = n div 2 ^ e;
               r = n mod 2 ^ e;
               h = 2 ^ (e - 1)
           in if r < h \<or> (r = h \<and> even q) then q * 2 ^ e else (q + 1) * 2 ^ e)"

definition jsAdd :: "nat \<Rightarrow> nat \<Rightarrow> nat" where
  "jsAdd a b = roundToDouble (a + b)"

text \<open>
  \<^verbatim>\<open>const [count, setCount] = useState(0)\<close>: the hook's cell is the state of the
  component, passed explicitly. \<^verbatim>\<open>viteLogo\<close> and \<^verbatim>\<open>reactLogo\<close> are the URLs the bundler
  gives for the two imported images.
\<close>

record AppState =
  count :: nat

text \<open>
  The component reads only \<^verbatim>\<open>count\<close>; whatever else is alive during a render is the
  extension of the record.
\<close>

definition App_initial :: AppState where
  "App_initial = \<lparr>count = 0\<rparr>"

text \<open>The button's \<^verbatim>\<open>onClick\<close>: \<^verbatim>\<open>setCount((count) => count + 1)\<close>.\<close>

definition App_onClick :: "'a AppState_scheme \<Rightarrow> 'a AppState_scheme" where
  "App_onClick s = s\<lparr>count := jsAdd (count s) 1\<rparr>"

definition App :: "string \<Rightarrow> string \<Rightarrow> 'a AppState_scheme \<Rightarrow> node" where
  "App viteLogo reactLogo s =
     Element (Tag ''main'')
       [(''className'', AStr ''min-h-screen flex flex-col items-center justify-center gap-8 px-4'')]
       [Element (Tag ''header'') [(''className'', AStr ''flex items-center gap-6'')]
          [Element (Tag ''a'')
             [(''href'', AStr ''https://vite.dev''), (''target'', AStr ''_blank''), (''rel'', AStr ''noreferrer'')]
             [Element (Tag ''img'')
                [(''src'', AStr viteLogo), (''className'', AStr ''h-16 w-16''), (''alt'', AStr ''Vite logo'')] []],
           Element (Tag ''a'')
             [(''href'', AStr ''https://react.dev''), (''target'', AStr ''_blank''), (''rel'', AStr ''noreferrer'')]
             [Element (Tag ''img'')
                [(''src'', AStr reactLogo), (''className'', AStr ''h-16 w-16''), (''alt'', AStr ''React logo'')] []]],
        Element (Tag ''h1'') [(''className'', AStr ''text-4xl font-bold'')] [Text ''Vite + React''],
        Element (Tag ''section'')
          [(''className'', AStr ''flex flex-col items-center gap-4 rounded-xl border border-slate-700 bg-slate-800 px-10 py-8'')]
          [Element (Component ''Button'')
             [(''variant'', AStr ''primary''), (''onClick'', AHandler ''setCount((count) => count + 1)'')]
             [Text ''count is '', NumChild (count s)],
           Element (Tag ''p'') [(''className'', AStr ''text-sm text-slate-400'')]
             [Text ''Edit'', Text '' '',
              Element (Tag ''code'') [(''className'', AStr ''rounded bg-slate-700 px-1.5 py-0.5 text-xs'')]
                [Text ''src/App.tsx''],
              Text '' '', Text ''and save to test HMR'']],
        Element (Tag ''footer'') [(''className'', AStr ''text-sm text-slate-400'')]
          [Text ''Click on the Vite and React logos to learn more'']]"

text \<open>The state after \<open>n\<close> clicks on the button of a freshly mounted \<^verbatim>\<open>App\<close>.\<close>

definition clicks :: "nat \<Rightarrow> AppState" where
  "clicks n = (App_onClick ^^ n) App_initial"

section \<open>The two class-name packages\<close>

text \<open>
  Modelled from the spec: \<^verbatim>\<open>clsx\<close> of the package clsx, whose code is not among the
  sources. The spec's words are that falsy arguments are dropped and that truthy class
  names are flattened and joined by single spaces. A string or a number that is truthy
  is a class name, an array contributes the names of its elements in order, a dictionary
  the keys whose value is truthy, and \<^verbatim>\<open>true\<close> contributes nothing.
\<close>

definition digitChar :: "nat \<Rightarrow> char" where
  "digitChar d = char_of (48 + d)"

fun showNat :: "nat \<Rightarrow> string" where
  "showNat n = (if n < 10 then [digitChar n] else showNat (n div 10) @ [digitChar (n mod 10)])"

definition showInt :: "int \<Rightarrow> string" where
  "showInt i = (if i < 0 then CHR ''-'' # showNat (nat (- i)) else showNat (nat i))"

fun truthy :: "ClassValue \<Rightarrow> bool" where
  "truthy (CStr s) = (s \<noteq> [])"
| "truthy (CNum n) = (n \<noteq> 0)"
| "truthy (CBool b) = b"
| "truthy CNull = False"
| "truthy CUndefined = False"
| "truthy (CArray vs) = True"
| "truthy (CDict kvs) = True"

fun classNames :: "ClassValue \<Rightarrow> string list" where
  "classNames (CStr s) = (if s = [] then [] else [s])"
| "classNames (CNum n) = (if n = 0 then [] else [showInt n])"
| "classNames (CBool b) = []"
| "classNames CNull = []"
| "classNames CUndefined = []"
| "classNames (CArray vs) = concat (map classNames vs)"
| "classNames (CDict kvs) = filter (\<lambda>k. k \<noteq> []) (map fst (filter snd kvs))"

fun joinSp :: "string list \<Rightarrow> string" where
  "joinSp [] = []"
| "joinSp [s] = s"
| "joinSp (s # t # ts) = s @ CHR '' '' # joinSp (t # ts)"

definition clsx_spec :: "ClassValue list \<Rightarrow> string" where
  "clsx_spec values = joinSp (concat (map classNames values))"

text \<open>
  Modelled from the spec: \<^verbatim>\<open>twMerge\<close> of the package tailwind-merge, whose code and
  table of Tailwind class groups are not among the sources. The spec's words are that a
  later conflicting class overrides an earlier one. The table is the parameter
  \<open>conflicts\<close>: \<open>conflicts a b\<close> says that class \<open>b\<close>, standing later, overrides class
  \<open>a\<close>. The class list is split at white space and read from its end; a class is kept
  unless a class already kept overrides it; the kept classes are joined by single spaces.
\<close>

definition isSpace :: "char \<Rightarrow> bool" where
  "isSpace c = (c = CHR '' '' \<or> c = CHR 0x09 \<or> c = CHR 0x0A \<or> c = CHR 0x0D \<or> c = CHR 0x0C)"

fun tokens :: "string \<Rightarrow> string \<Rightarrow> string list" where
  "tokens cur [] = (if cur = [] then [] else [cur])"
| "tokens cur (c # cs) =
     (if isSpace c then (if cur = [] then tokens [] cs else cur # tokens [] cs)
      else tokens (cur @ [c]) cs)"

definition splitWs :: "string \<Rightarrow> string list" where
  "splitWs s = tokens [] s"

fun mergeClassList :: "(string \<Rightarrow> string \<Rightarrow> bool) \<Rightarrow> string list \<Rightarrow> string list" where
  "mergeClassList conflicts [] = []"
| "mergeClassList conflicts (c # cs) =
     (let kept = mergeClassList conflicts cs
      in if list_ex (conflicts c) kept then kept else c # kept)"

definition twMerge_spec :: "(string \<Rightarrow> string \<Rightarrow> bool) \<Rightarrow> string \<Rightarrow> string" where
  "twMerge_spec conflicts s = joinSp (mergeClassList conflicts (splitWs s))"

text \<open>The two modelled packages put in place of the parameters; neither throws.\<close>

definition withClassPackages :: "(string \<Rightarrow> string \<Rightarrow> bool) \<Rightarrow> ('e, 'c, 'z) externals_scheme \<Rightarrow> ('e, 'c, 'z) externals_scheme" where
  "withClassPackages conflicts env =
     env\<lparr>clsx := (\<lambda>values. Inr (clsx_spec values)),
         twMerge := (\<lambda>s. Inr (twMerge_spec conflicts s))\<rparr>"

text \<open>A class token: a non-empty string without white space.\<close>

definition classToken :: "string \<Rightarrow> bool" where
  "classToken t = (t \<noteq> [] \<and> list_all (\<lambda>c. \<not> isSpace c) t)"

text \<open>
  An environment for examples: the two modelled class packages with an empty conflict
  table, an initials function that returns the first character, and an expanded sidebar.
\<close>

definition sampleEnv :: "(unit, unit) externals" where
  "sampleEnv =
     withClassPackages (\<lambda>a b. False)
       \<lparr>clsx = (\<lambda>values. Inl ()), twMerge = (\<lambda>s. Inl ()),
        getInitials = (\<lambda>name. Inr (take 1 name)),
        useSidebar = Inr \<lparr>state = Expanded\<rparr>\<rparr>"

text \<open>
  A second environment for examples: the same class packages and sidebar state, an
  initials function that throws, one more field in the sidebar context and one more in
  the environment.
\<close>

definition otherEnv :: "(unit, bool, nat) externals_scheme" where
  "otherEnv =
     \<lparr>clsx = clsx sampleEnv, twMerge = twMerge sampleEnv,
      getInitials = (\<lambda>name. Inl ()),
      useSidebar = Inr \<lparr>state = Expanded, \<dots> = True\<rparr>,
      \<dots> = 7\<rparr>"

text \<open>
  A third environment for examples: \<^verbatim>\<open>clsx\<close> returns, the other three throw, each its own
  message.
\<close>

definition throwingEnv :: "(string, unit) externals" where
  "throwingEnv =
     \<lparr>clsx = (\<lambda>values. Inr (clsx_spec values)),
      twMerge = (\<lambda>s. Inl ''twMerge failed''),
      getInitials = (\<lambda>name. Inl ''getInitials failed''),
      useSidebar = Inl ''useSidebar must be used within a SidebarProvider.''\<rparr>"

section \<open>Observations on trees and results\<close>

text \<open>The children of the node at a path; none when the path leaves the tree.\<close>

definition kidsAt :: "node \<Rightarrow> nat list \<Rightarrow> node list" where
  "kidsAt n path = (case nodeAt n path of None \<Rightarrow> [] | Some c \<Rightarrow> kids c)"

definition propsAt :: "node \<Rightarrow> nat list \<Rightarrow> (string \<times> attr) list" where
  "propsAt n path = (case nodeAt n path of None \<Rightarrow> [] | Some c \<Rightarrow> props c)"

text \<open>The element structure of a tree: the same tree without props.\<close>

fun skeleton :: "node \<Rightarrow> node" where
  "skeleton (Element t a cs) = Element t [] (map skeleton cs)"
| "skeleton (Text s) = Text s"
| "skeleton (NumChild n) = NumChild n"

text \<open>A tree with its component references renamed; tags, props and text stay.\<close>

fun renameComponents :: "(string \<Rightarrow> string) \<Rightarrow> node \<Rightarrow> node" where
  "renameComponents f (Element (Component c) a cs) = Element (Component (f c)) a (map (renameComponents f) cs)"
| "renameComponents f (Element (Tag t) a cs) = Element (Tag t) a (map (renameComponents f) cs)"
| "renameComponents f (Text s) = Text s"
| "renameComponents f (NumChild n) = NumChild n"

text \<open>The icons of the two sidebar modules, position by position.\<close>

definition toLucide :: "string \<Rightarrow> string" where
  "toLucide c =
     (if c = ''ChevronDoubleLeftIcon'' then ''ChevronsLeft''
      else if c = ''ChevronDoubleRightIcon'' then ''ChevronsRight''
      else if c = ''HomeIcon'' then ''House''
      else c)"

definition toHeroicons :: "string \<Rightarrow> string" where
  "toHeroicons c =
     (if c = ''ChevronsLeft'' then ''ChevronDoubleLeftIcon''
      else if c = ''ChevronsRight'' then ''ChevronDoubleRightIcon''
      else if c = ''House'' then ''HomeIcon''
      else c)"

text \<open>The exception a call ended with, if any; the first exception of calls made in order.\<close>

definition errorOf :: "'e + 'a \<Rightarrow> 'e option" where
  "errorOf r = (case r of Inl e \<Rightarrow> Some e | Inr x \<Rightarrow> None)"

fun firstError :: "'e option list \<Rightarrow> 'e option" where
  "firstError [] = None"
| "firstError (Some e # rs) = Some e"
| "firstError (None # rs) = firstError rs"

text \<open>
  Modelled from the spec: \<^verbatim>\<open>getInitials\<close> of the module \<^verbatim>\<open>@/utils/get-initials\<close>, which is
  not among the sources. The spec calls it a trivial initials computation and says that
  the repository has no error handling of its own; how the initials are formed it does
  not say. It is therefore some function \<open>f\<close> from names to strings that always returns.
\<close>

definition withInitials :: "(string \<Rightarrow> string) \<Rightarrow> ('e, 'c, 'z) externals_scheme \<Rightarrow> ('e, 'c, 'z) externals_scheme" where
  "withInitials f env = env\<lparr>getInitials := (\<lambda>name. Inr (f name))\<rparr>"

section \<open>Properties of the class-name utility\<close>

lemma tokens_space_append: "tokens cur (s @ CHR '' '' # r) = tokens cur s @ tokens [] r"
  by (induction s arbitrary: cur) (simp_all add: isSpace_def)

lemma splitWs_joinSp: "splitWs (joinSp ts) = concat (map splitWs ts)"
  by (induction ts rule: joinSp.induct) (simp_all add: splitWs_def tokens_space_append)

lemma tokens_clean:
  "t \<in> set (tokens cur s) \<Longrightarrow> list_all (\<lambda>c. \<not> isSpace c) cur \<Longrightarrow> classToken t"
proof (induction s arbitrary: cur)
  case Nil
  then show ?case by (auto simp: classToken_def split: if_splits)
next
  case (Cons c cs)
  then show ?case by (fastforce simp: classToken_def split: if_splits)
qed

lemma splitWs_clean: "t \<in> set (splitWs s) \<Longrightarrow> classToken t"
  using tokens_clean[of t "[]" s] by (simp add: splitWs_def)

lemma tokens_of_token:
  "list_all (\<lambda>c. \<not> isSpace c) t \<Longrightarrow> cur @ t \<noteq> [] \<Longrightarrow> tokens cur t = [cur @ t]"
  by (induction t arbitrary: cur) simp_all

lemma splitWs_token: "classToken t \<Longrightarrow> splitWs t = [t]"
  using tokens_of_token[of t "[]"] by (simp add: classToken_def splitWs_def)

lemma concat_splitWs_tokens: "list_all classToken ts \<Longrightarrow> concat (map splitWs ts) = ts"
  by (induction ts) (simp_all add: splitWs_token)

lemma mergeClassList_subseq: "subseq (mergeClassList conflicts cs) cs"
  by (induction cs) (auto simp: Let_def)

lemma mergeClassList_set: "set (mergeClassList conflicts cs) \<subseteq> set cs"
  by (induction cs) (auto simp: Let_def)

lemma mergeClassList_no_conflict:
  "sorted_wrt (\<lambda>a b. \<not> conflicts a b) (mergeClassList conflicts cs)"
  by (induction cs) (auto simp: Let_def list_ex_iff)

lemma mergeClassList_dropped:
  "a \<in> set cs \<Longrightarrow> a \<notin> set (mergeClassList conflicts cs) \<Longrightarrow>
   \<exists>b \<in> set (mergeClassList conflicts cs). conflicts a b"
  by (induction cs) (auto simp: Let_def list_ex_iff split: if_splits)

lemma splitWs_twMerge_spec:
  "splitWs (twMerge_spec conflicts s) = mergeClassList conflicts (splitWs s)"
proof -
  have "list_all classToken (mergeClassList conflicts (splitWs s))"
    using mergeClassList_set[of conflicts "splitWs s"] splitWs_clean
    by (auto simp: list_all_iff)
  then show ?thesis
    by (simp add: twMerge_spec_def splitWs_joinSp concat_splitWs_tokens)
qed

lemma classNames_falsy: "\<not> truthy v \<Longrightarrow> classNames v = []"
  by (cases v) simp_all

lemma clsx_spec_drops_falsy: "clsx_spec (filter truthy values) = clsx_spec values"
proof -
  have "concat (map classNames (filter truthy values)) = concat (map classNames values)"
    by (induction "values") (simp_all add: classNames_falsy)
  then show ?thesis by (simp add: clsx_spec_def)
qed

lemma cn_withClassPackages:
  "cn (withClassPackages conflicts env) values = Inr (twMerge_spec conflicts (clsx_spec values))"
  by (simp add: cn_def withClassPackages_def bindE_def)

text \<open>
  C1. For whatever the two packages do, \<^verbatim>\<open>cn(...values)\<close> is \<^verbatim>\<open>twMerge(clsx(...values))\<close>:
  it hands the values to \<^verbatim>\<open>clsx\<close> unchanged, hands the string \<^verbatim>\<open>clsx\<close> returns to
  \<^verbatim>\<open>twMerge\<close>, and returns what \<^verbatim>\<open>twMerge\<close> returns (an exception of either passes
  through). With the two packages as the spec describes them: the falsy values among the
  arguments make no difference; the classes handed to the conflict resolution are the
  truthy class names of the arguments, flattened, in order; the classes of the result are
  a subsequence of them in which no class is followed by a class that overrides it, and
  every class left out is overridden by a class of the result.
\<close>

theorem cn_twMerge_clsx:
  "cn env values = (case clsx env values of Inl e \<Rightarrow> Inl e | Inr s \<Rightarrow> twMerge env s)
   \<and> cn (withClassPackages conflicts env) values = Inr (twMerge_spec conflicts (clsx_spec values))
   \<and> cn (withClassPackages conflicts env) (filter truthy values) = cn (withClassPackages conflicts env) values
   \<and> splitWs (clsx_spec values) = concat (map splitWs (concat (map classNames values)))
   \<and> splitWs (twMerge_spec conflicts (clsx_spec values)) = mergeClassList conflicts (splitWs (clsx_spec values))
   \<and> subseq (mergeClassList conflicts cs) cs
   \<and> sorted_wrt (\<lambda>a b. \<not> conflicts a b) (mergeClassList conflicts cs)
   \<and> (\<forall>a \<in> set cs. a \<in> set (mergeClassList conflicts cs) \<or> (\<exists>b \<in> set (mergeClassList conflicts cs). conflicts a b))"
proof -
  have 1: "cn env values = (case clsx env values of Inl e \<Rightarrow> Inl e | Inr s \<Rightarrow> twMerge env s)"
    by (simp add: cn_def bindE_def)
  have 3: "cn (withClassPackages conflicts env) (filter truthy values) = cn (withClassPackages conflicts env) values"
    by (simp only: cn_withClassPackages clsx_spec_drops_falsy)
  have 4: "splitWs (clsx_spec values) = concat (map splitWs (concat (map classNames values)))"
    by (simp add: clsx_spec_def splitWs_joinSp)
  have 8: "\<forall>a \<in> set cs. a \<in> set (mergeClassList conflicts cs) \<or> (\<exists>b \<in> set (mergeClassList conflicts cs). conflicts a b)"
    using mergeClassList_dropped by blast
  show ?thesis
    using 1 cn_withClassPackages 3 4 splitWs_twMerge_spec mergeClassList_subseq
      mergeClassList_no_conflict 8 by blast
qed

text \<open>
  An instance: padding \<^verbatim>\<open>px-4\<close> written after \<^verbatim>\<open>px-2\<close> overrides it when the table says
  that two classes with the same first three characters conflict, and \<^verbatim>\<open>false\<close> is dropped.
\<close>

theorem cn_twMerge_clsx_witness:
  "''px-2'' \<in> set [''px-2'', ''flex'', ''px-4'']
   \<and> ''px-2'' \<notin> set (mergeClassList (\<lambda>a b. take 3 a = take 3 b) [''px-2'', ''flex'', ''px-4''])
   \<and> (\<exists>b \<in> set (mergeClassList (\<lambda>a b. take 3 a = take 3 b) [''px-2'', ''flex'', ''px-4'']).
         take 3 ''px-2'' = take 3 b)
   \<and> cn (withClassPackages (\<lambda>a b. take 3 a = take 3 b) sampleEnv)
        [CStr ''px-2'', CBool False, CArray [CStr ''flex'', CNull], CStr ''px-4'']
      = Inr ''flex px-4''"
  using cn_twMerge_clsx [of sampleEnv
      "[CStr ''px-2'', CBool False, CArray [CStr ''flex'', CNull], CStr ''px-4'']"
      "\<lambda>a b. take 3 a = take 3 b" "[''px-2'', ''flex'', ''px-4'']"]
  by (simp add: twMerge_spec_def clsx_spec_def splitWs_def isSpace_def)

section \<open>Properties of the pages, the layout and the sidebar\<close>

text \<open>
  C3. \<^verbatim>\<open>DashboardPage\<close> takes no props. The children of its grid are the cards of the four
  entries of the constant \<^verbatim>\<open>stats\<close>, in the order of the array; the first paragraph of a
  card holds the label and the second the value: Total Scans 128, Critical Findings 14,
  Providers Connected 5, Last Scan 2h ago. Any two renders give the same tree.
\<close>

theorem DashboardPage_stat_cards:
  "kidsAt (DashboardPage u) [1] = map statCard stats
   \<and> map (\<lambda>card. (kidsAt card [0], kidsAt card [1])) (kidsAt (DashboardPage u) [1]) =
       [([Text ''Total Scans''], [Text ''128'']),
        ([Text ''Critical Findings''], [Text ''14'']),
        ([Text ''Providers Connected''], [Text ''5'']),
        ([Text ''Last Scan''], [Text ''2h ago''])]
   \<and> DashboardPage u = DashboardPage u'"
  by (simp add: DashboardPage_def kidsAt_def stats_def statCard_def)

text \<open>
  C4. The component of the root route is \<^verbatim>\<open>RootLayout\<close>, whose tree holds one
  \<^verbatim>\<open>AppLayout\<close> element. The element structure of what \<^verbatim>\<open>AppLayout\<close> returns is a
  \<^verbatim>\<open>Header\<close> with two \<^verbatim>\<open>HeaderSection\<close>s, the first holding a \<^verbatim>\<open>HeaderBrand\<close> and the
  second a \<^verbatim>\<open>HeaderUserAvatar\<close>, followed by a \<^verbatim>\<open>SidebarProvider\<close> that holds the
  \<^verbatim>\<open>AppSidebar\<close> and a \<^verbatim>\<open>main\<close> element with the router's \<^verbatim>\<open>Outlet\<close>.
\<close>

theorem layout_layering:
  "component Route = RootLayout
   \<and> kids (component Route u) = [Element (Component ''AppLayout'') [] []]
   \<and> skeleton (AppLayout u) =
       Element (Tag ''div'') []
         [Element (Component ''Header'') []
            [Element (Component ''HeaderSection'') [] [Element (Component ''HeaderBrand'') [] []],
             Element (Component ''HeaderSection'') [] [Element (Component ''HeaderUserAvatar'') [] []]],
          Element (Component ''SidebarProvider'') []
            [Element (Component ''AppSidebar'') [] [],
             Element (Tag ''main'') [] [Element (Component ''Outlet'') [] []]]]"
  by (simp add: Route_def RootLayout_def AppLayout_def)

lemma AppSidebar_menu:
  "AppSidebar env = Inr t \<Longrightarrow> kidsAt t [1, 0] = map navEntry navItems"
  by (auto simp: AppSidebar_def bindE_def kidsAt_def Let_def split: sum.splits)

text \<open>
  C5. The entry made for a navigation item is a \<^verbatim>\<open>Link\<close> whose \<^verbatim>\<open>to\<close> prop is the item's
  \<^verbatim>\<open>to\<close> field, holding the item's icon and label. Whenever \<^verbatim>\<open>AppSidebar\<close> returns a
  tree, the children of its menu are the entries of \<^verbatim>\<open>navItems\<close>, one for one: a single
  link, labelled Home, to the route \<^verbatim>\<open>/\<close>.
\<close>

theorem sidebar_entries_link_to_routes:
  "nodeAt (navEntry item) [0, 0] =
     Some (Element (Component ''Link'') [(''to'', AStr (to item))]
             [Element (Component (Icon item)) [(''className'', AStr ''size-4'')] [],
              Element (Tag ''span'') [] [Text (label item)]])
   \<and> (AppSidebar env = Inr t \<longrightarrow>
        kidsAt t [1, 0] = map navEntry navItems
        \<and> map (\<lambda>entry. nodeAt entry [0, 0]) (kidsAt t [1, 0]) =
            [Some (Element (Component ''Link'') [(''to'', AStr ''/'')]
                     [Element (Component ''HomeIcon'') [(''className'', AStr ''size-4'')] [],
                      Element (Tag ''span'') [] [Text ''Home'']])])"
proof (intro conjI impI)
  show "nodeAt (navEntry item) [0, 0] =
     Some (Element (Component ''Link'') [(''to'', AStr (to item))]
             [Element (Component (Icon item)) [(''className'', AStr ''size-4'')] [],
              Element (Tag ''span'') [] [Text (label item)]])"
    by (simp add: navEntry_def)
next
  assume a: "AppSidebar env = Inr t"
  show k: "kidsAt t [1, 0] = map navEntry navItems"
    by (rule AppSidebar_menu [OF a])
  show "map (\<lambda>entry. nodeAt entry [0, 0]) (kidsAt t [1, 0]) =
            [Some (Element (Component ''Link'') [(''to'', AStr ''/'')]
                     [Element (Component ''HomeIcon'') [(''className'', AStr ''size-4'')] [],
                      Element (Tag ''span'') [] [Text ''Home'']])]"
    unfolding k by (simp add: navEntry_def navItems_def)
qed

text \<open>An instance: the sidebar in the example environment.\<close>

theorem sidebar_entries_link_to_routes_witness:
  "AppSidebar sampleEnv = Inr
     (Element (Component ''Sidebar'')
            [(''collapsible'', AStr ''icon''),
             (''className'', AStr ''absolute h-(--content-height) max-h-(--content-height)'')]
            [Element (Component ''SidebarHeader'') [(''className'', AStr ''flex justify-end'')]
               [Element (Component ''SidebarTrigger'') []
                  [Element (Component ''ChevronDoubleLeftIcon'') [(''className'', AStr ''size-4'')] []]],
             Element (Component ''SidebarContent'') []
               [Element (Component ''SidebarMenu'') [] (map navEntry navItems)],
             Element (Component ''SidebarRail'') [] []])
  \<and> map (\<lambda>entry. nodeAt entry [0, 0]) (map navEntry navItems) =
            [Some (Element (Component ''Link'') [(''to'', AStr ''/'')]
                     [Element (Component ''HomeIcon'') [(''className'', AStr ''size-4'')] [],
                      Element (Tag ''span'') [] [Text ''Home'']])]"
  (is "AppSidebar sampleEnv = Inr ?T \<and> ?links")
proof -
  have r: "AppSidebar sampleEnv = Inr ?T"
    by (simp add: AppSidebar_def sampleEnv_def withClassPackages_def cn_def bindE_def
        clsx_spec_def twMerge_spec_def splitWs_def isSpace_def)
  from sidebar_entries_link_to_routes [where env = sampleEnv and t = ?T] r
  have "kidsAt ?T [1, 0] = map navEntry navItems
        \<and> map (\<lambda>entry. nodeAt entry [0, 0]) (kidsAt ?T [1, 0]) =
            [Some (Element (Component ''Link'') [(''to'', AStr ''/'')]
                     [Element (Component ''HomeIcon'') [(''className'', AStr ''size-4'')] [],
                      Element (Tag ''span'') [] [Text ''Home'']])]"
    by blast
  then have ?links by metis
  with r show ?thesis by blast
qed

section \<open>Properties of the counter\<close>

lemma floorlog_one: "floorlog 2 (Suc 0) = Suc 0"
  by (simp add: floorlog_def)

lemma floorlog_pow2: "floorlog 2 (2 ^ k) = k + 1"
  using floorlog_power[of 1 2 k] by (simp add: floorlog_one)

lemma floorlog_2_53_1: "floorlog 2 (2 ^ 53 + 1) = 54"
proof -
  have "floorlog 2 (2 ^ 53 + 1) = floorlog 2 ((2 ^ 53 + 1) div 2) + 1"
    by (subst compute_floorlog) simp
  also have "((2::nat) ^ 53 + 1) div 2 = 2 ^ 52" by simp
  finally show ?thesis by (simp only: floorlog_pow2)
qed

lemma round_small: "n < 2 ^ 53 \<Longrightarrow> roundToDouble n = n"
  by (simp add: roundToDouble_def)

lemma round_53: "roundToDouble (2 ^ 53) = 2 ^ 53"
  using floorlog_pow2[of 53] by (simp add: roundToDouble_def)

lemma round_53_1: "roundToDouble (2 ^ 53 + 1) = 2 ^ 53"
  using floorlog_2_53_1 by (simp add: roundToDouble_def)

lemma jsAdd_1: "c \<le> 2 ^ 53 \<Longrightarrow> jsAdd c 1 = (if c < 2 ^ 53 - 1 then c + 1 else 2 ^ 53)"
proof -
  assume le: "c \<le> 2 ^ 53"
  consider "c < 2 ^ 53 - 1" | "c = 2 ^ 53 - 1" | "c = 2 ^ 53" using le by force
  then show ?thesis
  proof cases
    case 1 then show ?thesis using round_small[of "c + 1"] by (simp add: jsAdd_def)
  next
    case 2 then show ?thesis using round_53 by (simp add: jsAdd_def)
  next
    case 3 then show ?thesis using round_53_1 by (simp add: jsAdd_def)
  qed
qed

lemma clicks_Suc: "clicks (Suc n) = App_onClick (clicks n)"
  by (simp add: clicks_def)

lemma count_clicks: "count (clicks n) = min n (2 ^ 53)"
proof (induction n)
  case 0
  show ?case by (simp add: clicks_def App_initial_def)
next
  case (Suc n)
  have le: "count (clicks n) \<le> 2 ^ 53" using Suc.IH by simp
  show ?case
    using Suc.IH jsAdd_1[OF le] by (auto simp: clicks_Suc App_onClick_def min_def)
qed

lemma App_button_count:
  "nodeAt (App viteLogo reactLogo s) [2, 0, 1] = Some (NumChild (count s))"
  by (simp add: App_def numeral_2_eq_2)

text \<open>
  C10, as the code has it. The count starts at 0 and a click replaces it by
  \<^verbatim>\<open>count + 1\<close> in JavaScript's number arithmetic. After \<open>n\<close> clicks the button shows
  \<open>n\<close> as long as \<open>n\<close> is at most \<open>2 ^ 53\<close>; from there on \<^verbatim>\<open>count + 1\<close> rounds back to
  \<open>2 ^ 53\<close> and the button keeps showing \<open>2 ^ 53\<close>. The number shown is a natural
  number, so it is never negative.
\<close>

theorem counter_after_clicks:
  "count App_initial = 0
   \<and> count (App_onClick s) = jsAdd (count s) 1
   \<and> nodeAt (App viteLogo reactLogo (clicks n)) [2, 0, 1] = Some (NumChild (min n (2 ^ 53)))
   \<and> (n \<le> 2 ^ 53 \<longrightarrow> nodeAt (App viteLogo reactLogo (clicks n)) [2, 0, 1] = Some (NumChild n))"
  unfolding App_button_count count_clicks
  by (simp add: App_initial_def App_onClick_def)

text \<open>An instance: three clicks.\<close>

theorem counter_after_clicks_witness:
  "(3::nat) \<le> 2 ^ 53
   \<and> nodeAt (App ''/vite.svg'' ''/src/assets/react.svg'' (clicks 3)) [2, 0, 1] = Some (NumChild 3)"
  using counter_after_clicks [of App_initial "''/vite.svg''" "''/src/assets/react.svg''" 3]
  by simp

text \<open>
  C10, as the claim has it, fails: after \<open>2 ^ 53 + 1\<close> clicks the button does not show
  \<open>2 ^ 53 + 1\<close>.
\<close>

theorem counter_counterexample:
  "nodeAt (App ''/vite.svg'' ''/src/assets/react.svg'' (clicks (2 ^ 53 + 1))) [2, 0, 1]
     \<noteq> Some (NumChild (2 ^ 53 + 1))"
  unfolding App_button_count count_clicks by simp

section \<open>The two sidebar modules\<close>

text \<open>
  C9. The sidebar with Heroicons and the sidebar with lucide icons return the same result
  for every environment, hence for every sidebar state, up to the names of the three
  icon components: renaming \<^verbatim>\<open>ChevronDoubleLeftIcon\<close>, \<^verbatim>\<open>ChevronDoubleRightIcon\<close> and
  \<^verbatim>\<open>HomeIcon\<close> to \<^verbatim>\<open>ChevronsLeft\<close>, \<^verbatim>\<open>ChevronsRight\<close> and \<^verbatim>\<open>House\<close> in the tree of the
  first gives the tree of the second, and the other way round; structure, props, class
  names and the choice of the chevron are left as they are by the renaming. An exception
  of \<^verbatim>\<open>useSidebar\<close> or \<^verbatim>\<open>cn\<close> is the same in both. Each module has the one navigation item
  Home to \<^verbatim>\<open>/\<close>.
\<close>

theorem AppSidebar_icon_sets_equivalent:
  "map_sum id (renameComponents toLucide) (AppSidebar env) = AppSidebar_lucide env
   \<and> map_sum id (renameComponents toHeroicons) (AppSidebar_lucide env) = AppSidebar env
   \<and> map (\<lambda>i. (label i, to i)) navItems = [(''Home'', ''/'')]
   \<and> map (\<lambda>i. (label i, to i)) navItems_lucide = [(''Home'', ''/'')]"
  by (cases "useSidebar env")
     (auto simp: AppSidebar_def AppSidebar_lucide_def bindE_def Let_def toLucide_def toHeroicons_def
        navEntry_def navEntry_lucide_def navItems_def navItems_lucide_def
        split: sum.splits)

section \<open>Properties of the header components\<close>

lemma HeaderUserAvatar_returns:
  assumes "name = (case avatarName p of None \<Rightarrow> ''User'' | Some n \<Rightarrow> n)"
      and "getInitials env name = Inr initials"
      and "cn env [CStr ''rounded-full outline-none ring-offset-2 focus-visible:ring-2 focus-visible:ring-slate-400'',
                   classArg (avatarClassName p)] = Inr c"
  shows "HeaderUserAvatar env p =
      Inr (Element (Component ''DropdownMenu'') []
             [Element (Component ''DropdownMenuTrigger'') [(''asChild'', ABool True)]
                [Element (Tag ''button'')
                   [(''type'', AStr ''button''),
                    (''className'', AStr c),
                    (''aria-label'', AStr (''User menu for '' @ name))]
                   [if truthyStr (avatarSrc p) then
                      Element (Tag ''img'')
                        [(''src'', AStr (the (avatarSrc p))), (''alt'', AStr name),
                         (''className'', AStr ''h-8 w-8 rounded-full object-cover'')] []
                    else
                      Element (Tag ''div'')
                        [(''className'', AStr ''flex h-8 w-8 items-center justify-center rounded-full bg-indigo-600 text-white'')]
                        [Element (Tag ''span'') [(''className'', AStr ''text-xs font-semibold'')]
                           [Text initials]]]],
              Element (Component ''DropdownMenuContent'') [(''align'', AStr ''end'')]
                [Element (Component ''DropdownMenuItem'') [] [Text ''Profile''],
                 Element (Component ''DropdownMenuItem'') [] [Text ''Settings''],
                 Element (Component ''DropdownMenuItem'') [] [Text ''Sign out'']]])"
  using assms by (simp add: HeaderUserAvatar_def bindE_def Let_def)

lemma cn_sampleEnv: "cn sampleEnv vs = Inr (twMerge_spec (\<lambda>a b. False) (clsx_spec vs))"
  unfolding sampleEnv_def by (rule cn_withClassPackages)

lemma avatar_class_sample:
  "cn sampleEnv [CStr ''rounded-full outline-none ring-offset-2 focus-visible:ring-2 focus-visible:ring-slate-400'', CUndefined]
     = Inr ''rounded-full outline-none ring-offset-2 focus-visible:ring-2 focus-visible:ring-slate-400''"
  by (simp add: cn_sampleEnv twMerge_spec_def clsx_spec_def splitWs_def isSpace_def)

lemma getInitials_sampleEnv: "getInitials sampleEnv n = Inr (take 1 n)"
  by (simp add: sampleEnv_def withClassPackages_def)

text \<open>
  C8, as the code has it. Let the imported calls return. \<^verbatim>\<open>HeaderUserAvatar\<close> puts into
  its button the profile image exactly when \<^verbatim>\<open>src\<close> is a non-empty string, and the
  circle with the initials otherwise (\<^verbatim>\<open>src\<close> omitted or empty). The button's
  \<^verbatim>\<open>aria-label\<close> is \<^verbatim>\<open>User menu for\<close> followed by the name, the initials are those of the
  name, and an omitted name is \<^verbatim>\<open>User\<close>.
\<close>

theorem HeaderUserAvatar_image_or_initials:
  assumes "name = (case avatarName p of None \<Rightarrow> ''User'' | Some n \<Rightarrow> n)"
      and "getInitials env name = Inr initials"
      and "cn env [CStr ''rounded-full outline-none ring-offset-2 focus-visible:ring-2 focus-visible:ring-slate-400'',
                   classArg (avatarClassName p)] = Inr c"
  shows "\<exists>t. HeaderUserAvatar env p = Inr t
           \<and> map_of (propsAt t [0, 0]) ''aria-label'' = Some (AStr (''User menu for '' @ name))
           \<and> kidsAt t [0, 0] =
               [case avatarSrc p of
                  Some (ch # s) \<Rightarrow>
                    Element (Tag ''img'')
                      [(''src'', AStr (ch # s)), (''alt'', AStr name),
                       (''className'', AStr ''h-8 w-8 rounded-full object-cover'')] []
                | _ \<Rightarrow>
                    Element (Tag ''div'')
                      [(''className'', AStr ''flex h-8 w-8 items-center justify-center rounded-full bg-indigo-600 text-white'')]
                      [Element (Tag ''span'') [(''className'', AStr ''text-xs font-semibold'')]
                         [Text initials]]]
           \<and> (avatarName p = None \<longrightarrow> name = ''User'')"
  using assms(1) HeaderUserAvatar_returns [OF assms]
  by (auto simp: kidsAt_def propsAt_def truthyStr_def split: option.splits list.splits)

text \<open>An instance: a profile image and no name.\<close>

theorem HeaderUserAvatar_image_or_initials_witness:
  "''User'' = (case avatarName \<lparr>avatarSrc = Some ''/me.png'', avatarName = None, avatarClassName = None\<rparr>
                of None \<Rightarrow> ''User'' | Some n \<Rightarrow> n)
   \<and> getInitials sampleEnv ''User'' = Inr ''U''
   \<and> cn sampleEnv [CStr ''rounded-full outline-none ring-offset-2 focus-visible:ring-2 focus-visible:ring-slate-400'',
         classArg (avatarClassName \<lparr>avatarSrc = Some ''/me.png'', avatarName = None, avatarClassName = None\<rparr>)]
       = Inr ''rounded-full outline-none ring-offset-2 focus-visible:ring-2 focus-visible:ring-slate-400''
   \<and> (\<exists>t. HeaderUserAvatar sampleEnv \<lparr>avatarSrc = Some ''/me.png'', avatarName = None, avatarClassName = None\<rparr> = Inr t
         \<and> map_of (propsAt t [0, 0]) ''aria-label'' = Some (AStr ''User menu for User'')
         \<and> kidsAt t [0, 0] =
             [Element (Tag ''img'')
                [(''src'', AStr ''/me.png''), (''alt'', AStr ''User''),
                 (''className'', AStr ''h-8 w-8 rounded-full object-cover'')] []])"
proof -
  let ?p = "\<lparr>avatarSrc = Some ''/me.png'', avatarName = None, avatarClassName = None\<rparr>"
  have 1: "''User'' = (case avatarName ?p of None \<Rightarrow> ''User'' | Some n \<Rightarrow> n)" by simp
  have 2: "getInitials sampleEnv ''User'' = Inr ''U''" by (simp add: getInitials_sampleEnv)
  have 3: "cn sampleEnv [CStr ''rounded-full outline-none ring-offset-2 focus-visible:ring-2 focus-visible:ring-slate-400'',
         classArg (avatarClassName ?p)]
       = Inr ''rounded-full outline-none ring-offset-2 focus-visible:ring-2 focus-visible:ring-slate-400''"
    using avatar_class_sample by (simp add: classArg_def)
  show ?thesis
    using HeaderUserAvatar_image_or_initials [OF 1 2 3] 1 2 3 by simp
qed

text \<open>
  C8, as the claim has it, fails: with the \<^verbatim>\<open>src\<close> prop supplied as the empty string the
  button holds the circle with the initials, not an image.
\<close>

theorem HeaderUserAvatar_empty_src_counterexample:
  "map_sum id (\<lambda>t. kidsAt t [0, 0])
     (HeaderUserAvatar sampleEnv \<lparr>avatarSrc = Some [], avatarName = None, avatarClassName = None\<rparr>)
   = Inr [Element (Tag ''div'')
            [(''className'', AStr ''flex h-8 w-8 items-center justify-center rounded-full bg-indigo-600 text-white'')]
            [Element (Tag ''span'') [(''className'', AStr ''text-xs font-semibold'')] [Text ''U'']]]"
  by (simp add: HeaderUserAvatar_def getInitials_sampleEnv avatar_class_sample classArg_def
      bindE_def truthyStr_def kidsAt_def)

text \<open>
  C2. With \<^verbatim>\<open>getInitials\<close> any function \<open>f\<close> that always returns, \<^verbatim>\<open>getInitials(name)\<close>
  returns \<open>f name\<close> for every name, and when \<^verbatim>\<open>HeaderUserAvatar\<close> shows its fallback
  circle (no image to show, \<^verbatim>\<open>cn\<close> returning), the text of the \<^verbatim>\<open>span\<close> inside the
  circle is exactly that string.
\<close>

theorem getInitials_rendered_in_fallback:
  assumes "\<not> truthyStr (avatarSrc p)"
      and "name = (case avatarName p of None \<Rightarrow> ''User'' | Some n \<Rightarrow> n)"
      and "cn env [CStr ''rounded-full outline-none ring-offset-2 focus-visible:ring-2 focus-visible:ring-slate-400'',
                   classArg (avatarClassName p)] = Inr c"
  shows "getInitials (withInitials f env) name = Inr (f name)
       \<and> (\<exists>t. HeaderUserAvatar (withInitials f env) p = Inr t
              \<and> nodeAt t [0, 0, 0, 0] =
                  Some (Element (Tag ''span'') [(''className'', AStr ''text-xs font-semibold'')]
                          [Text (f name)]))"
proof -
  have g: "getInitials (withInitials f env) name = Inr (f name)"
    by (simp add: withInitials_def)
  have c: "cn (withInitials f env) [CStr ''rounded-full outline-none ring-offset-2 focus-visible:ring-2 focus-visible:ring-slate-400'',
                   classArg (avatarClassName p)] = Inr c"
    using assms(3) by (simp add: cn_def withInitials_def)
  show ?thesis
    using g HeaderUserAvatar_returns [OF assms(2) g c] assms(1) by simp
qed

text \<open>An instance: the initials function that takes the first two characters.\<close>

theorem getInitials_rendered_in_fallback_witness:
  "\<not> truthyStr (avatarSrc \<lparr>avatarSrc = None, avatarName = Some ''Ada Lovelace'', avatarClassName = None\<rparr>)
   \<and> cn sampleEnv [CStr ''rounded-full outline-none ring-offset-2 focus-visible:ring-2 focus-visible:ring-slate-400'',
         classArg (avatarClassName \<lparr>avatarSrc = None, avatarName = Some ''Ada Lovelace'', avatarClassName = None\<rparr>)]
       = Inr ''rounded-full outline-none ring-offset-2 focus-visible:ring-2 focus-visible:ring-slate-400''
   \<and> (\<exists>t. HeaderUserAvatar (withInitials (\<lambda>n. take 2 n) sampleEnv)
              \<lparr>avatarSrc = None, avatarName = Some ''Ada Lovelace'', avatarClassName = None\<rparr> = Inr t
         \<and> nodeAt t [0, 0, 0, 0] =
             Some (Element (Tag ''span'') [(''className'', AStr ''text-xs font-semibold'')] [Text ''Ad'']))"
proof -
  let ?p = "\<lparr>avatarSrc = None, avatarName = Some ''Ada Lovelace'', avatarClassName = None\<rparr>"
  have 1: "\<not> truthyStr (avatarSrc ?p)" by (simp add: truthyStr_def)
  have 2: "''Ada Lovelace'' = (case avatarName ?p of None \<Rightarrow> ''User'' | Some n \<Rightarrow> n)" by simp
  have 3: "cn sampleEnv [CStr ''rounded-full outline-none ring-offset-2 focus-visible:ring-2 focus-visible:ring-slate-400'',
         classArg (avatarClassName ?p)]
       = Inr ''rounded-full outline-none ring-offset-2 focus-visible:ring-2 focus-visible:ring-slate-400''"
    using avatar_class_sample by (simp add: classArg_def)
  show ?thesis
    using getInitials_rendered_in_fallback [OF 1 2 3, of "\<lambda>n. take 2 n"] 1 3 by simp
qed

section \<open>Exceptions and dependence on the environment\<close>

lemma errorOf_bindE:
  "errorOf (bindE m (\<lambda>x. Inr (f x))) = errorOf m"
  by (simp add: errorOf_def bindE_def split: sum.splits)

lemma errorOf_None_iff: "errorOf r = None \<longleftrightarrow> (\<exists>t. r = Inr t)"
  by (cases r) (simp_all add: errorOf_def)

lemma bindE_Inr: "bindE (Inr x) f = f x"
  by (simp add: bindE_def)

lemma cn_case: "cn env vs = (case clsx env vs of Inl e \<Rightarrow> Inl e | Inr s \<Rightarrow> twMerge env s)"
  by (simp add: cn_def bindE_def)

lemma cn_withInitials: "cn (withInitials f env) = cn env"
  by (rule ext) (simp add: cn_def withInitials_def)

lemma cn_returns:
  assumes "\<forall>ws. \<exists>c. clsx env ws = Inr c" and "\<forall>s. \<exists>c. twMerge env s = Inr c"
  shows "\<exists>c. cn env vs = Inr c"
proof -
  obtain s where s: "clsx env vs = Inr s" using assms(1) by blast
  obtain c where "twMerge env s = Inr c" using assms(2) by blast
  with s show ?thesis by (simp add: cn_case)
qed

lemma cn_throwingEnv: "cn throwingEnv ws = Inl ''twMerge failed''"
  by (simp add: cn_case throwingEnv_def)

text \<open>
  C7. No component has an exception of its own. \<^verbatim>\<open>cn\<close> ends with the exception of
  \<^verbatim>\<open>clsx\<close> or else of \<^verbatim>\<open>twMerge\<close>. \<^verbatim>\<open>Header\<close>, \<^verbatim>\<open>HeaderSection\<close>, \<^verbatim>\<open>HeaderBrand\<close>,
  \<^verbatim>\<open>HeaderDivider\<close> and \<^verbatim>\<open>HeaderCompanyLogo\<close> end with an exception exactly when the one
  call of \<^verbatim>\<open>cn\<close> they make, on their own class string and the \<^verbatim>\<open>className\<close> prop, does, and
  with that exception; \<^verbatim>\<open>HeaderUserAvatar\<close> with the exception of \<^verbatim>\<open>getInitials\<close> on the
  name, or else of its call of \<^verbatim>\<open>cn\<close>; the two sidebars with the exception of
  \<^verbatim>\<open>useSidebar\<close>, or else of their call of \<^verbatim>\<open>cn\<close>. So an exception of a callee is neither
  caught nor replaced, and none is made: the type of exceptions is arbitrary. When the
  three library functions return, and with \<^verbatim>\<open>getInitials\<close> as the spec has it (a function
  that always returns), every component returns markup, for every props value.
  \<^verbatim>\<open>DashboardPage\<close>, \<^verbatim>\<open>HomePage\<close>, \<^verbatim>\<open>AppLayout\<close> and \<^verbatim>\<open>RootLayout\<close> call no function, and
  \<^verbatim>\<open>App\<close> only \<^verbatim>\<open>useState\<close>, whose cell is its state argument; their result type is markup.
\<close>

theorem components_only_pass_on_errors:
  fixes env :: "('e, 'c, 'z) externals_scheme"
  shows "cn env vs = (case clsx env vs of Inl e \<Rightarrow> Inl e | Inr s \<Rightarrow> twMerge env s)
   \<and> errorOf (Header env p) =
       errorOf (cn env [CStr ''flex h-14 items-center justify-between border-b border-slate-200 bg-white px-6 dark:border-slate-800 dark:bg-slate-950'',
                        classArg (className p)])
   \<and> errorOf (HeaderSection env p) =
       errorOf (cn env [CStr ''flex items-center gap-3'', classArg (className p)])
   \<and> errorOf (HeaderBrand env p) =
       errorOf (cn env [CStr ''text-base font-semibold text-slate-900 dark:text-white'', classArg (className p)])
   \<and> errorOf (HeaderDivider env p) =
       errorOf (cn env [CStr ''h-5 w-px bg-slate-200 dark:bg-slate-700'', classArg (className p)])
   \<and> errorOf (HeaderCompanyLogo env lp) =
       errorOf (cn env [CStr (if truthyStr (logoSrc lp) then ''h-7 w-auto rounded object-contain''
                              else ''flex h-7 w-7 items-center justify-center rounded bg-slate-100 dark:bg-slate-800''),
                        classArg (logoClassName lp)])
   \<and> errorOf (HeaderUserAvatar env ap) =
       firstError
         [errorOf (getInitials env (case avatarName ap of None \<Rightarrow> ''User'' | Some n \<Rightarrow> n)),
          errorOf (cn env [CStr ''rounded-full outline-none ring-offset-2 focus-visible:ring-2 focus-visible:ring-slate-400'',
                           classArg (avatarClassName ap)])]
   \<and> errorOf (AppSidebar env) =
       (case useSidebar env of
          Inl e \<Rightarrow> Some e
        | Inr ctx \<Rightarrow>
            errorOf (cn env [CStr ''flex'', CStr (if state ctx = Expanded then ''justify-end'' else ''justify-center'')]))
   \<and> errorOf (AppSidebar_lucide env) = errorOf (AppSidebar env)
   \<and> ((\<forall>ws. \<exists>c. clsx env ws = Inr c) \<and> (\<forall>s. \<exists>c. twMerge env s = Inr c) \<and> (\<exists>ctx. useSidebar env = Inr ctx)
        \<longrightarrow> (\<exists>t. Header (withInitials f env) p = Inr t)
            \<and> (\<exists>t. HeaderSection (withInitials f env) p = Inr t)
            \<and> (\<exists>t. HeaderBrand (withInitials f env) p = Inr t)
            \<and> (\<exists>t. HeaderDivider (withInitials f env) p = Inr t)
            \<and> (\<exists>t. HeaderCompanyLogo (withInitials f env) lp = Inr t)
            \<and> (\<exists>t. HeaderUserAvatar (withInitials f env) ap = Inr t)
            \<and> (\<exists>t. AppSidebar (withInitials f env) = Inr t)
            \<and> (\<exists>t. AppSidebar_lucide (withInitials f env) = Inr t))"
proof -
  have h: "errorOf (Header env p) =
       errorOf (cn env [CStr ''flex h-14 items-center justify-between border-b border-slate-200 bg-white px-6 dark:border-slate-800 dark:bg-slate-950'',
                        classArg (className p)])" for env :: "('e, 'c, 'z) externals_scheme"
    unfolding Header_def by (rule errorOf_bindE)
  have hs: "errorOf (HeaderSection env p) =
       errorOf (cn env [CStr ''flex items-center gap-3'', classArg (className p)])"
    for env :: "('e, 'c, 'z) externals_scheme"
    unfolding HeaderSection_def by (rule errorOf_bindE)
  have hb: "errorOf (HeaderBrand env p) =
       errorOf (cn env [CStr ''text-base font-semibold text-slate-900 dark:text-white'', classArg (className p)])"
    for env :: "('e, 'c, 'z) externals_scheme"
    unfolding HeaderBrand_def by (rule errorOf_bindE)
  have hd: "errorOf (HeaderDivider env p) =
       errorOf (cn env [CStr ''h-5 w-px bg-slate-200 dark:bg-slate-700'', classArg (className p)])"
    for env :: "('e, 'c, 'z) externals_scheme"
    unfolding HeaderDivider_def by (rule errorOf_bindE)
  have hl: "errorOf (HeaderCompanyLogo env lp) =
       errorOf (cn env [CStr (if truthyStr (logoSrc lp) then ''h-7 w-auto rounded object-contain''
                              else ''flex h-7 w-7 items-center justify-center rounded bg-slate-100 dark:bg-slate-800''),
                        classArg (logoClassName lp)])"
    for env :: "('e, 'c, 'z) externals_scheme"
    unfolding HeaderCompanyLogo_def Let_def
    by (cases "truthyStr (logoSrc lp)") (simp_all add: errorOf_bindE)
  have ha: "errorOf (HeaderUserAvatar env ap) =
       firstError
         [errorOf (getInitials env (case avatarName ap of None \<Rightarrow> ''User'' | Some n \<Rightarrow> n)),
          errorOf (cn env [CStr ''rounded-full outline-none ring-offset-2 focus-visible:ring-2 focus-visible:ring-slate-400'',
                           classArg (avatarClassName ap)])]"
    for env :: "('e, 'c, 'z) externals_scheme"
  proof -
    let ?n = "case avatarName ap of None \<Rightarrow> ''User'' | Some n \<Rightarrow> n"
    let ?ws = "[CStr ''rounded-full outline-none ring-offset-2 focus-visible:ring-2 focus-visible:ring-slate-400'',
                     classArg (avatarClassName ap)]"
    show ?thesis
      by (cases "getInitials env ?n"; cases "cn env ?ws")
         (simp_all add: HeaderUserAvatar_def Let_def bindE_def errorOf_def)
  qed
  have hsb: "errorOf (AppSidebar env) =
       (case useSidebar env of
          Inl e \<Rightarrow> Some e
        | Inr ctx \<Rightarrow>
            errorOf (cn env [CStr ''flex'', CStr (if state ctx = Expanded then ''justify-end'' else ''justify-center'')]))"
    for env :: "('e, 'c, 'z) externals_scheme"
  proof (cases "useSidebar env")
    case (Inl e)
    then show ?thesis by (simp add: AppSidebar_def bindE_def errorOf_def)
  next
    case (Inr ctx)
    then show ?thesis
      by (simp add: AppSidebar_def Let_def bindE_Inr errorOf_bindE)
  qed
  have hsl: "errorOf (AppSidebar_lucide env) = errorOf (AppSidebar env)"
    for env :: "('e, 'c, 'z) externals_scheme"
  proof (cases "useSidebar env")
    case (Inl e)
    then show ?thesis by (simp add: AppSidebar_def AppSidebar_lucide_def bindE_def errorOf_def)
  next
    case (Inr ctx)
    then show ?thesis
      by (simp add: AppSidebar_def AppSidebar_lucide_def Let_def bindE_Inr errorOf_bindE)
  qed
  have fin: "(\<exists>t. Header (withInitials f env) p = Inr t)
            \<and> (\<exists>t. HeaderSection (withInitials f env) p = Inr t)
            \<and> (\<exists>t. HeaderBrand (withInitials f env) p = Inr t)
            \<and> (\<exists>t. HeaderDivider (withInitials f env) p = Inr t)
            \<and> (\<exists>t. HeaderCompanyLogo (withInitials f env) lp = Inr t)
            \<and> (\<exists>t. HeaderUserAvatar (withInitials f env) ap = Inr t)
            \<and> (\<exists>t. AppSidebar (withInitials f env) = Inr t)
            \<and> (\<exists>t. AppSidebar_lucide (withInitials f env) = Inr t)"
    if a: "(\<forall>ws. \<exists>c. clsx env ws = Inr c) \<and> (\<forall>s. \<exists>c. twMerge env s = Inr c) \<and> (\<exists>ctx. useSidebar env = Inr ctx)"
  proof -
    have c0: "errorOf (cn (withInitials f env) ws) = None" for ws
      using cn_returns[of env ws] a by (auto simp: cn_withInitials errorOf_None_iff)
    have g0: "errorOf (getInitials (withInitials f env) n) = None" for n
      by (simp add: withInitials_def errorOf_def)
    obtain ctx where "useSidebar env = Inr ctx" using a by blast
    then have u0: "useSidebar (withInitials f env) = Inr ctx" by (simp add: withInitials_def)
    have "errorOf (Header (withInitials f env) p) = None"
         "errorOf (HeaderSection (withInitials f env) p) = None"
         "errorOf (HeaderBrand (withInitials f env) p) = None"
         "errorOf (HeaderDivider (withInitials f env) p) = None"
         "errorOf (HeaderCompanyLogo (withInitials f env) lp) = None"
         "errorOf (HeaderUserAvatar (withInitials f env) ap) = None"
         "errorOf (AppSidebar (withInitials f env)) = None"
         "errorOf (AppSidebar_lucide (withInitials f env)) = None"
      unfolding h hs hb hd hl ha hsl hsb c0 g0 u0 by simp_all
    then show ?thesis by (simp add: errorOf_None_iff)
  qed
  show ?thesis
    using cn_case[of env vs] h[of env] hs[of env] hb[of env] hd[of env] hl[of env] ha[of env]
      hsb[of env] hsl[of env] fin by blast
qed

text \<open>
  Instances: props that are all given, in an environment where the libraries return; and
  the same props in an environment where \<^verbatim>\<open>twMerge\<close>, \<^verbatim>\<open>getInitials\<close> and \<^verbatim>\<open>useSidebar\<close>
  throw, each component ending with the message of the call it made first.
\<close>

theorem components_only_pass_on_errors_witness:
  "((\<forall>ws. \<exists>c. clsx sampleEnv ws = Inr c) \<and> (\<forall>s. \<exists>c. twMerge sampleEnv s = Inr c)
      \<and> (\<exists>ctx. useSidebar sampleEnv = Inr ctx))
   \<and> (\<exists>t. Header (withInitials (take 2) sampleEnv)
              \<lparr>children = Some [Text ''Infinitus''], className = Some ''px-2'',
               rest = [(''id'', AStr ''top'')]\<rparr> = Inr t)
   \<and> (\<exists>t. HeaderCompanyLogo (withInitials (take 2) sampleEnv)
              \<lparr>logoSrc = Some ''/logo.png'', logoAlt = Some ''Acme'', logoClassName = Some ''h-9'',
               logoRest = [(''id'', AStr ''logo'')]\<rparr> = Inr t)
   \<and> (\<exists>t. HeaderUserAvatar (withInitials (take 2) sampleEnv)
              \<lparr>avatarSrc = Some ''/me.png'', avatarName = Some ''Ada Lovelace'',
               avatarClassName = Some ''ml-2''\<rparr> = Inr t)
   \<and> (\<exists>t. AppSidebar (withInitials (take 2) sampleEnv) = Inr t)
   \<and> errorOf (Header throwingEnv
         \<lparr>children = Some [Text ''Infinitus''], className = Some ''px-2'',
          rest = [(''id'', AStr ''top'')]\<rparr>) = Some ''twMerge failed''
   \<and> errorOf (HeaderUserAvatar throwingEnv
         \<lparr>avatarSrc = Some ''/me.png'', avatarName = Some ''Ada Lovelace'',
          avatarClassName = Some ''ml-2''\<rparr>) = Some ''getInitials failed''
   \<and> errorOf (AppSidebar throwingEnv) = Some ''useSidebar must be used within a SidebarProvider.''"
proof -
  let ?p = "\<lparr>children = Some [Text ''Infinitus''], className = Some ''px-2'',
               rest = [(''id'', AStr ''top'')]\<rparr>"
  let ?lp = "\<lparr>logoSrc = Some ''/logo.png'', logoAlt = Some ''Acme'', logoClassName = Some ''h-9'',
               logoRest = [(''id'', AStr ''logo'')]\<rparr>"
  let ?ap = "\<lparr>avatarSrc = Some ''/me.png'', avatarName = Some ''Ada Lovelace'',
               avatarClassName = Some ''ml-2''\<rparr>"
  have a: "(\<forall>ws. \<exists>c. clsx sampleEnv ws = Inr c) \<and> (\<forall>s. \<exists>c. twMerge sampleEnv s = Inr c)
      \<and> (\<exists>ctx. useSidebar sampleEnv = Inr ctx)"
    by (simp add: sampleEnv_def withClassPackages_def)
  have r: "(\<exists>t. Header (withInitials (take 2) sampleEnv) ?p = Inr t)
      \<and> (\<exists>t. HeaderCompanyLogo (withInitials (take 2) sampleEnv) ?lp = Inr t)
      \<and> (\<exists>t. HeaderUserAvatar (withInitials (take 2) sampleEnv) ?ap = Inr t)
      \<and> (\<exists>t. AppSidebar (withInitials (take 2) sampleEnv) = Inr t)"
    using a components_only_pass_on_errors [where env = sampleEnv and p = ?p and lp = ?lp and ap = ?ap and f = "take 2"]
    by blast
  have t: "errorOf (Header throwingEnv ?p) = Some ''twMerge failed''
      \<and> errorOf (HeaderUserAvatar throwingEnv ?ap) = Some ''getInitials failed''
      \<and> errorOf (AppSidebar throwingEnv) = Some ''useSidebar must be used within a SidebarProvider.''"
    using components_only_pass_on_errors [where env = throwingEnv and p = ?p and lp = ?lp and ap = ?ap]
    by (simp add: cn_throwingEnv errorOf_def) (simp add: throwingEnv_def)
  show ?thesis using a r t by blast
qed

lemma cn_cong_env:
  "clsx env = clsx env' \<Longrightarrow> twMerge env = twMerge env' \<Longrightarrow> cn env = cn env'"
  by (rule ext) (simp add: cn_def)

text \<open>
  C6, as the code has it. \<^verbatim>\<open>App\<close> keeps a count in a \<^verbatim>\<open>useState\<close> cell, and its tree is
  determined by its two image URLs and that count. Every other component is determined
  by its props, the class-name packages and the sidebar state: two renders with the same
  props in two environments that agree on \<^verbatim>\<open>clsx\<close>, on \<^verbatim>\<open>twMerge\<close> and on the \<^verbatim>\<open>state\<close> that
  \<^verbatim>\<open>useSidebar\<close> returns (or on the exception it throws) give the same result for
  \<^verbatim>\<open>Header\<close>, \<^verbatim>\<open>HeaderSection\<close>, \<^verbatim>\<open>HeaderBrand\<close>, \<^verbatim>\<open>HeaderDivider\<close>, \<^verbatim>\<open>HeaderCompanyLogo\<close>,
  the two sidebars, \<^verbatim>\<open>DashboardPage\<close>, \<^verbatim>\<open>HomePage\<close>, \<^verbatim>\<open>AppLayout\<close> and \<^verbatim>\<open>RootLayout\<close>, and
  for \<^verbatim>\<open>HeaderUserAvatar\<close> when the environments also agree on \<^verbatim>\<open>getInitials\<close>, whatever
  else differs between the environments: the other fields of the sidebar context and
  anything held besides.
\<close>

theorem components_depend_only_on_inputs:
  assumes "clsx env = clsx env'"
      and "twMerge env = twMerge env'"
      and "map_sum id state (useSidebar env) = map_sum id state (useSidebar env')"
  shows "Header env p = Header env' p
       \<and> HeaderSection env p = HeaderSection env' p
       \<and> HeaderBrand env p = HeaderBrand env' p
       \<and> HeaderDivider env p = HeaderDivider env' p
       \<and> HeaderCompanyLogo env lp = HeaderCompanyLogo env' lp
       \<and> AppSidebar env = AppSidebar env'
       \<and> AppSidebar_lucide env = AppSidebar_lucide env'
       \<and> DashboardPage u = DashboardPage u'
       \<and> HomePage u = HomePage u'
       \<and> AppLayout u = AppLayout u'
       \<and> RootLayout u = RootLayout u'
       \<and> (getInitials env = getInitials env' \<longrightarrow> HeaderUserAvatar env ap = HeaderUserAvatar env' ap)
       \<and> (count s = count s' \<longrightarrow> App viteLogo reactLogo s = App viteLogo reactLogo s')"
proof -
  have c: "cn env = cn env'" using assms(1,2) by (rule cn_cong_env)
  have s: "AppSidebar env = AppSidebar env'"
    using assms(3)
    by (cases "useSidebar env"; cases "useSidebar env'") (auto simp: AppSidebar_def bindE_def c)
  have sl: "AppSidebar_lucide env = AppSidebar_lucide env'"
    using assms(3)
    by (cases "useSidebar env"; cases "useSidebar env'") (auto simp: AppSidebar_lucide_def bindE_def c)
  have a: "getInitials env = getInitials env' \<longrightarrow> HeaderUserAvatar env ap = HeaderUserAvatar env' ap"
    by (simp add: HeaderUserAvatar_def c)
  have app: "count s = count s' \<longrightarrow> App viteLogo reactLogo s = App viteLogo reactLogo s'"
    by (simp add: App_def)
  have h: "Header env p = Header env' p
       \<and> HeaderSection env p = HeaderSection env' p
       \<and> HeaderBrand env p = HeaderBrand env' p
       \<and> HeaderDivider env p = HeaderDivider env' p
       \<and> HeaderCompanyLogo env lp = HeaderCompanyLogo env' lp"
    unfolding Header_def HeaderSection_def HeaderBrand_def HeaderDivider_def
        HeaderCompanyLogo_def c by simp
  show ?thesis using h s sl a app by simp
qed

text \<open>
  Instances: the first two example environments, which differ in \<^verbatim>\<open>getInitials\<close> and in
  their extra fields; the second with the initials function of the first put in; and two
  states of \<^verbatim>\<open>App\<close> with the same count, one of them with an extra field.
\<close>

theorem components_depend_only_on_inputs_witness:
  "clsx sampleEnv = clsx otherEnv
   \<and> twMerge sampleEnv = twMerge otherEnv
   \<and> map_sum id state (useSidebar sampleEnv) = map_sum id state (useSidebar otherEnv)
   \<and> getInitials sampleEnv ''Ada'' \<noteq> getInitials otherEnv ''Ada''
   \<and> Header sampleEnv \<lparr>children = Some [Text ''x''], className = Some ''px-2'', rest = []\<rparr>
       = Header otherEnv \<lparr>children = Some [Text ''x''], className = Some ''px-2'', rest = []\<rparr>
   \<and> AppSidebar sampleEnv = AppSidebar otherEnv
   \<and> getInitials sampleEnv = getInitials (withInitials (take 1) otherEnv)
   \<and> HeaderUserAvatar sampleEnv \<lparr>avatarSrc = None, avatarName = Some ''Ada'', avatarClassName = None\<rparr>
       = HeaderUserAvatar (withInitials (take 1) otherEnv)
           \<lparr>avatarSrc = None, avatarName = Some ''Ada'', avatarClassName = None\<rparr>
   \<and> count \<lparr>count = 3\<rparr> = count \<lparr>count = 3, \<dots> = True\<rparr>
   \<and> App ''/vite.svg'' ''/src/assets/react.svg'' \<lparr>count = 3\<rparr>
       = App ''/vite.svg'' ''/src/assets/react.svg'' \<lparr>count = 3, \<dots> = True\<rparr>"
proof -
  have 1: "clsx sampleEnv = clsx otherEnv" by (simp add: otherEnv_def)
  have 2: "twMerge sampleEnv = twMerge otherEnv" by (simp add: otherEnv_def)
  have 3: "map_sum id state (useSidebar sampleEnv) = map_sum id state (useSidebar otherEnv)"
    by (simp add: otherEnv_def sampleEnv_def withClassPackages_def)
  have 4: "getInitials sampleEnv ''Ada'' \<noteq> getInitials otherEnv ''Ada''"
    by (simp add: otherEnv_def sampleEnv_def withClassPackages_def)
  have a1: "clsx sampleEnv = clsx (withInitials (take 1) otherEnv)"
    by (simp add: otherEnv_def withInitials_def)
  have a2: "twMerge sampleEnv = twMerge (withInitials (take 1) otherEnv)"
    by (simp add: otherEnv_def withInitials_def)
  have a3: "map_sum id state (useSidebar sampleEnv)
              = map_sum id state (useSidebar (withInitials (take 1) otherEnv))"
    by (simp add: otherEnv_def sampleEnv_def withClassPackages_def withInitials_def)
  have 5: "getInitials sampleEnv = getInitials (withInitials (take 1) otherEnv)"
    by (simp add: sampleEnv_def withClassPackages_def withInitials_def)
  have 6: "count \<lparr>count = 3\<rparr> = count \<lparr>count = 3, \<dots> = True\<rparr>" by simp
  show ?thesis
    using components_depend_only_on_inputs [OF 1 2 3]
      components_depend_only_on_inputs [OF a1 a2 a3,
        where s = "\<lparr>count = 3\<rparr>" and s' = "\<lparr>count = 3, \<dots> = True\<rparr>"]
      1 2 3 4 5 6 by blast
qed

text \<open>
  C6, as the claim has it, fails for \<^verbatim>\<open>App\<close>: it takes no props and reads no sidebar
  state, and its tree before the first click differs from its tree after it.
\<close>

theorem App_state_counterexample:
  "App ''/vite.svg'' ''/src/assets/react.svg'' (clicks 0)
     \<noteq> App ''/vite.svg'' ''/src/assets/react.svg'' (clicks 1)"
proof
  assume "App ''/vite.svg'' ''/src/assets/react.svg'' (clicks 0)
            = App ''/vite.svg'' ''/src/assets/react.svg'' (clicks 1)"
  then have "nodeAt (App ''/vite.svg'' ''/src/assets/react.svg'' (clicks 0)) [2, 0, 1]
               = nodeAt (App ''/vite.svg'' ''/src/assets/react.svg'' (clicks 1)) [2, 0, 1]"
    by (rule arg_cong)
  then show False
    unfolding App_button_count count_clicks by simp
qed

end
